theory Spec2Isabelle
  imports Complex_Main
begin

section \<open>Values of the host language\<close>

text \<open>
  The dashboard is TypeScript; at run time its numbers are IEEE doubles. A finite double is
  modelled by the real number it denotes (comparison with a literal is exact on doubles),
  and the three special values are kept, because a comparison with \<open>NaN\<close> is false in both
  directions.
\<close>

datatype jsnum = Finite real | PosInfinity | NegInfinity | NaN

text \<open>\<open>x > c\<close> and \<open>x <= c\<close> for a finite literal \<open>c\<close>.\<close>

fun js_gt :: "jsnum \<Rightarrow> real \<Rightarrow> bool" where
  "js_gt (Finite a) c = (a > c)"
| "js_gt PosInfinity c = True"
| "js_gt NegInfinity c = False"
| "js_gt NaN c = False"

fun js_le :: "jsnum \<Rightarrow> real \<Rightarrow> bool" where
  "js_le (Finite a) c = (a \<le> c)"
| "js_le PosInfinity c = False"
| "js_le NegInfinity c = True"
| "js_le NaN c = False"

text \<open>
  A run-time value: what \<open>response.json()\<close> and \<open>JSON.parse\<close> hand back, plus \<open>undefined\<close>,
  which property reads produce. An object is the list of its own properties in creation
  order (the first binding of a key is the property).
\<close>

datatype jsval =
    Undefined
  | Null
  | Bool bool
  | Num jsnum
  | Str string
  | Arr "jsval list"
  | Obj "(string \<times> jsval) list"

datatype js_error = TypeError | SyntaxError | NetworkError | ServerError

section \<open>Data model\<close>

text \<open>
  \<open>interface Station\<close> of the assistant panel (the map's own declaration is the same shape
  without \<open>area\<close>). The identifier is \<open>string | number\<close>.
\<close>

datatype station_id = IdStr string | IdNum jsnum

record StationInfo =
  name :: string
  latitude :: jsnum
  longitude :: jsnum
  area :: string

text \<open>
  Modelled from the spec: the declaration of \<open>SensorReading\<close> (imported from \<open>../types\<close>) is
  not among the sources. The spec's Reading is a timestamp, a temperature, an emissions level
  and a noise level; the map component declares the same four fields inline.
\<close>

record SensorReading =
  datetime :: string
  temperature :: jsnum
  emissions :: jsnum
  noise :: jsnum

record Station =
  station_id :: station_id
  info :: StationInfo
  latestReading :: "SensorReading option"

text \<open>\<open>interface Suggestion\<close>; \<open>parameter\<close> is a union of three string literals.\<close>

record Suggestion =
  stationName :: string
  sugg_area :: string
  parameter :: string
  sugg_value :: jsnum
  threshold :: jsnum
  suggestion :: string

section \<open>The local fallback of \<open>analyzeStationsWithAI\<close>\<close>

text \<open>
  \<open>s.latestReading?.f!\<close>: the optional chain gives \<open>undefined\<close> on a null reading, and
  \<open>undefined\<close> converts to \<open>NaN\<close> in a relational comparison.
\<close>

definition chain :: "SensorReading option \<Rightarrow> (SensorReading \<Rightarrow> jsnum) \<Rightarrow> jsnum" where
  "chain r f = (case r of None \<Rightarrow> NaN | Some x \<Rightarrow> f x)"

text \<open>The callback given to \<open>stations.map\<close>; \<open>None\<close> is its \<open>return null\<close>.\<close>

definition thresholdCheck :: "Station \<Rightarrow> Suggestion option" where
  "thresholdCheck s =
     (if js_gt (chain (latestReading s) temperature) 30 then
        Some \<lparr> stationName = name (info s), sugg_area = area (info s),
               parameter = ''Temperature'',
               sugg_value = chain (latestReading s) temperature,
               threshold = Finite 30,
               suggestion = ''Deploy cooling systems or improve ventilation.'' \<rparr>
      else if js_gt (chain (latestReading s) emissions) 150 then
        Some \<lparr> stationName = name (info s), sugg_area = area (info s),
               parameter = ''PM 2.5 Emissions'',
               sugg_value = chain (latestReading s) emissions,
               threshold = Finite 150,
               suggestion =
                 ''Implement carbon capture technologies or reduce operational hours.'' \<rparr>
      else if js_gt (chain (latestReading s) noise) 85 then
        Some \<lparr> stationName = name (info s), sugg_area = area (info s),
               parameter = ''Noise'',
               sugg_value = chain (latestReading s) noise,
               threshold = Finite 85,
               suggestion =
                 ''Install noise barriers or schedule loud activities during off-peak hours.'' \<rparr>
      else None)"

text \<open>\<open>.filter(Boolean)\<close> on the mapped array: objects are truthy, \<open>null\<close> is dropped.\<close>

fun filterBoolean :: "'a option list \<Rightarrow> 'a list" where
  "filterBoolean [] = []"
| "filterBoolean (None # xs) = filterBoolean xs"
| "filterBoolean (Some x # xs) = x # filterBoolean xs"

definition localFallback :: "Station list \<Rightarrow> Suggestion list" where
  "localFallback stations = filterBoolean (map thresholdCheck stations)"

section \<open>Reading run-time values\<close>

text \<open>
  Strings are lists of code units below 256. \<open>ToBoolean\<close>: the falsy values are \<open>undefined\<close>,
  \<open>null\<close>, \<open>false\<close>, zero, \<open>NaN\<close> and the empty string.
\<close>

fun truthy :: "jsval \<Rightarrow> bool" where
  "truthy Undefined = False"
| "truthy Null = False"
| "truthy (Bool b) = b"
| "truthy (Num (Finite r)) = (r \<noteq> 0)"
| "truthy (Num NaN) = False"
| "truthy (Num PosInfinity) = True"
| "truthy (Num NegInfinity) = True"
| "truthy (Str s) = (s \<noteq> [])"
| "truthy (Arr xs) = True"
| "truthy (Obj fs) = True"

fun Array_isArray :: "jsval \<Rightarrow> bool" where
  "Array_isArray (Arr xs) = True"
| "Array_isArray v = False"

fun nullish :: "jsval \<Rightarrow> bool" where
  "nullish Undefined = True"
| "nullish Null = True"
| "nullish v = False"

text \<open>
  \<open>v.k\<close> for the keys the panel reads (\<open>stationName\<close>, \<open>choices\<close>, \<open>message\<close>, \<open>content\<close>,
  \<open>length\<close>): a read on \<open>undefined\<close> or \<open>null\<close> throws; an object answers with its own
  property; arrays and strings have \<open>length\<close> and none of the other four; numbers and
  booleans have none of the five.
\<close>

fun getProp :: "jsval \<Rightarrow> string \<Rightarrow> js_error + jsval" where
  "getProp Undefined k = Inl TypeError"
| "getProp Null k = Inl TypeError"
| "getProp (Obj fs) k = Inr (case map_of fs k of None \<Rightarrow> Undefined | Some v \<Rightarrow> v)"
| "getProp (Arr xs) k =
     Inr (if k = ''length'' then Num (Finite (real (length xs))) else Undefined)"
| "getProp (Str s) k =
     Inr (if k = ''length'' then Num (Finite (real (length s))) else Undefined)"
| "getProp (Bool b) k = Inr Undefined"
| "getProp (Num n) k = Inr Undefined"

text \<open>\<open>v[0]\<close>.\<close>

fun getIndex0 :: "jsval \<Rightarrow> js_error + jsval" where
  "getIndex0 Undefined = Inl TypeError"
| "getIndex0 Null = Inl TypeError"
| "getIndex0 (Arr xs) = Inr (case xs of [] \<Rightarrow> Undefined | x # _ \<Rightarrow> x)"
| "getIndex0 (Str s) = Inr (case s of [] \<Rightarrow> Undefined | c # _ \<Rightarrow> Str [c])"
| "getIndex0 (Obj fs) = Inr (case map_of fs ''0'' of None \<Rightarrow> Undefined | Some v \<Rightarrow> v)"
| "getIndex0 (Bool b) = Inr Undefined"
| "getIndex0 (Num n) = Inr Undefined"

text \<open>The optional chains \<open>v?.k\<close> and \<open>v?.[0]\<close>.\<close>

definition optProp :: "jsval \<Rightarrow> string \<Rightarrow> js_error + jsval" where
  "optProp v k = (if nullish v then Inr Undefined else getProp v k)"

definition optIndex0 :: "jsval \<Rightarrow> js_error + jsval" where
  "optIndex0 v = (if nullish v then Inr Undefined else getIndex0 v)"

text \<open>Sequencing of steps that may throw.\<close>

definition andThen :: "'e + 'a \<Rightarrow> ('a \<Rightarrow> 'e + 'b) \<Rightarrow> 'e + 'b" where
  "andThen m f = (case m of Inl e \<Rightarrow> Inl e | Inr x \<Rightarrow> f x)"

section \<open>The remote phase of \<open>analyzeStationsWithAI\<close>\<close>

text \<open>
  What \<open>await fetch(...)\<close> and \<open>await response.json()\<close> deliver: the request is rejected, or
  there is a response with its \<open>ok\<close> flag and its body, \<open>None\<close> when the body is not JSON
  (\<open>response.json()\<close> rejects).
\<close>

datatype fetch_result = FetchRejected | Response bool "jsval option"

text \<open>
  \<open>content.replace(/```json|```/g, "")\<close> on a string: scan from the left, at each position try
  the longer alternative first, drop the match and go on behind it.
\<close>

function stripFences :: "string \<Rightarrow> string" where
  "stripFences s =
     (if s = [] then []
      else if take 7 s = ''```json'' then stripFences (drop 7 s)
      else if take 3 s = ''```'' then stripFences (drop 3 s)
      else hd s # stripFences (tl s))"
  by pat_completeness auto
termination
  by (relation "measure length") auto

text \<open>A truthy value that is not a string has no callable \<open>replace\<close>: the call throws.\<close>

fun replaceFences :: "jsval \<Rightarrow> js_error + string" where
  "replaceFences (Str s) = Inr (stripFences s)"
| "replaceFences v = Inl TypeError"

definition isWhiteSpace :: "char \<Rightarrow> bool" where
  "isWhiteSpace c =
     (c \<in> set [CHR 0x09, CHR 0x0A, CHR 0x0B, CHR 0x0C, CHR 0x0D, CHR 0x20, CHR 0xA0])"

definition trim :: "string \<Rightarrow> string" where
  "trim s = rev (dropWhile isWhiteSpace (rev (dropWhile isWhiteSpace s)))"

text \<open>\<open>Array.isArray(apiData) && apiData[0]?.stationName\<close>, with the short circuit.\<close>

definition directArray :: "jsval \<Rightarrow> js_error + bool" where
  "directArray apiData =
     (if \<not> Array_isArray apiData then Inr False
      else andThen (getIndex0 apiData) (\<lambda>first.
           andThen (optProp first ''stationName'') (\<lambda>n. Inr (truthy n))))"

text \<open>\<open>apiData.choices?.[0]?.message?.content || ""\<close>.\<close>

definition extractContent :: "jsval \<Rightarrow> js_error + jsval" where
  "extractContent apiData =
     andThen (getProp apiData ''choices'') (\<lambda>choices.
     andThen (optIndex0 choices) (\<lambda>choice.
     andThen (optProp choice ''message'') (\<lambda>message.
     andThen (optProp message ''content'') (\<lambda>c.
       Inr (if truthy c then c else Str [])))))"

text \<open>
  The \<open>else\<close> branch. \<open>JSON.parse\<close> belongs to the host, so it is a parameter: \<open>parse s\<close> is
  \<open>None\<close> where \<open>JSON.parse(s)\<close> throws; the inner \<open>catch\<close> turns that into \<open>[]\<close>.
\<close>

definition envelopePath :: "(string \<Rightarrow> jsval option) \<Rightarrow> jsval \<Rightarrow> js_error + jsval" where
  "envelopePath parse apiData =
     andThen (extractContent apiData) (\<lambda>content.
     andThen (replaceFences content) (\<lambda>replaced.
       let cleanContent = trim replaced
       in Inr (case parse cleanContent of None \<Rightarrow> Arr [] | Some v \<Rightarrow> v)))"

text \<open>The body of the outer \<open>try\<close>.\<close>

definition tryBody :: "(string \<Rightarrow> jsval option) \<Rightarrow> fetch_result \<Rightarrow> js_error + jsval" where
  "tryBody parse r =
     (case r of
        FetchRejected \<Rightarrow> Inl NetworkError
      | Response ok body \<Rightarrow>
          if \<not> ok then Inl ServerError
          else (case body of
                  None \<Rightarrow> Inl SyntaxError
                | Some apiData \<Rightarrow>
                    andThen (directArray apiData) (\<lambda>direct.
                      if direct then Inr apiData else envelopePath parse apiData)))"

section \<open>\<open>analyzeStationsWithAI\<close>\<close>

record Panel =
  chatOpen :: bool
  suggestions :: jsval
  loading :: bool

definition toggleChat :: "Panel \<Rightarrow> Panel" where
  "toggleChat st = st\<lparr> chatOpen := \<not> chatOpen st \<rparr>"

text \<open>The object literal a fallback suggestion is, as a run-time value.\<close>

definition suggestionObject :: "Suggestion \<Rightarrow> jsval" where
  "suggestionObject g =
     Obj [(''stationName'', Str (stationName g)), (''area'', Str (sugg_area g)),
          (''parameter'', Str (parameter g)), (''value'', Num (sugg_value g)),
          (''threshold'', Num (threshold g)), (''suggestion'', Str (suggestion g))]"

text \<open>
  The call either runs to its end or leaves with an exception nothing catches; then the
  state is what the setters had made of it so far.
\<close>

datatype outcome = Completed Panel | Uncaught js_error Panel

text \<open>
  The outer \<open>catch\<close> replaces any exception of the \<open>try\<close> body by \<open>[]\<close>. The test
  \<open>finalSuggestions.length === 0\<close> stands behind the \<open>try\<close> statement.
\<close>

definition analyzeStationsWithAI ::
  "(string \<Rightarrow> jsval option) \<Rightarrow> fetch_result \<Rightarrow> Station list \<Rightarrow> Panel \<Rightarrow> outcome" where
  "analyzeStationsWithAI parse r stations st =
     (let st1 = st\<lparr> loading := True, suggestions := Arr [] \<rparr>;
          finalSuggestions = (case tryBody parse r of Inl e \<Rightarrow> Arr [] | Inr v \<Rightarrow> v)
      in case getProp finalSuggestions ''length'' of
           Inl e \<Rightarrow> Uncaught e st1
         | Inr len \<Rightarrow>
             Completed (st1\<lparr> suggestions :=
                               (if len = Num (Finite 0)
                                then Arr (map suggestionObject (localFallback stations))
                                else finalSuggestions),
                             loading := False \<rparr>))"

text \<open>
  A stand-in for \<open>JSON.parse\<close> on five texts, for evaluating the panel on concrete payloads:
  it agrees with \<open>JSON.parse\<close> on each of them and throws on the empty text, as \<open>JSON.parse\<close>
  does.
\<close>

definition parseLiterals :: "string \<Rightarrow> jsval option" where
  "parseLiterals s =
     (if s = ''null'' then Some Null
      else if s = ''[]'' then Some (Arr [])
      else if s = ''{}'' then Some (Obj [])
      else if s = ''7'' then Some (Num (Finite 7))
      else if s = ''true'' then Some (Bool True)
      else None)"

section \<open>Rendering of the suggestions, grouped by station\<close>

text \<open>
  The accumulator of \<open>suggestions.reduce\<close> is a plain object created by \<open>{}\<close>: its own
  properties in creation order, and behind them what every object inherits from
  \<open>Object.prototype\<close>.
\<close>

type_synonym groups = "(string \<times> Suggestion list) list"

definition Object_prototype_keys :: "string list" where
  "Object_prototype_keys =
     [''constructor'', ''hasOwnProperty'', ''isPrototypeOf'', ''propertyIsEnumerable'',
      ''toLocaleString'', ''toString'', ''valueOf'', ''__proto__'',
      ''__defineGetter__'', ''__defineSetter__'', ''__lookupGetter__'', ''__lookupSetter__'']"

datatype slot = Own "Suggestion list" | Inherited | Missing

text \<open>\<open>acc[k]\<close>: an own property, else an inherited one, else \<open>undefined\<close>.\<close>

definition readKey :: "groups \<Rightarrow> string \<Rightarrow> slot" where
  "readKey acc k =
     (case map_of acc k of
        Some items \<Rightarrow> Own items
      | None \<Rightarrow> if k \<in> set Object_prototype_keys then Inherited else Missing)"

text \<open>\<open>acc[k].push(curr)\<close> on an own array: the property keeps its place.\<close>

definition pushAt :: "groups \<Rightarrow> string \<Rightarrow> Suggestion \<Rightarrow> groups" where
  "pushAt acc k cur = map (\<lambda>(k', items). if k' = k then (k', items @ [cur]) else (k', items)) acc"

text \<open>
  The reducer: \<open>if (!acc[k]) acc[k] = []; acc[k].push(curr)\<close>. An array is truthy even when
  empty, and so is every inherited value; an inherited value has no \<open>push\<close>.
\<close>

definition groupStep :: "groups \<Rightarrow> Suggestion \<Rightarrow> js_error + groups" where
  "groupStep acc cur =
     (let k = stationName cur;
          acc1 = (case readKey acc k of Missing \<Rightarrow> acc @ [(k, [])] | _ \<Rightarrow> acc)
      in case readKey acc1 k of
           Own items \<Rightarrow> Inr (pushAt acc1 k cur)
         | _ \<Rightarrow> Inl TypeError)"

fun reduceGroups :: "groups \<Rightarrow> Suggestion list \<Rightarrow> js_error + groups" where
  "reduceGroups acc [] = Inr acc"
| "reduceGroups acc (cur # rest) =
     (case groupStep acc cur of Inl e \<Rightarrow> Inl e | Inr acc' \<Rightarrow> reduceGroups acc' rest)"

text \<open>
  \<open>Object.entries\<close> lists the own properties in the order of the language: first the keys
  that are array indices (canonical decimal numerals below \<open>2^32 - 1\<close>), ascending, then the
  other keys in creation order.
\<close>

definition isDigit :: "char \<Rightarrow> bool" where
  "isDigit c = (c \<in> set ''0123456789'')"

definition indexValue :: "string \<Rightarrow> nat" where
  "indexValue s = foldl (\<lambda>n c. 10 * n + (of_char c - 48)) 0 s"

definition isArrayIndex :: "string \<Rightarrow> bool" where
  "isArrayIndex s =
     (s \<noteq> [] \<and> list_all isDigit s \<and> (s = ''0'' \<or> hd s \<noteq> CHR ''0'')
      \<and> indexValue s < 4294967295)"

definition Object_entries :: "(string \<times> 'a) list \<Rightarrow> (string \<times> 'a) list" where
  "Object_entries obj =
     sort_key (\<lambda>e. indexValue (fst e)) (filter (\<lambda>e. isArrayIndex (fst e)) obj)
     @ filter (\<lambda>e. \<not> isArrayIndex (fst e)) obj"

text \<open>One rendered row (parameter, value with threshold, advice) and one group box.\<close>

record Row =
  row_key :: nat
  row_parameter :: string
  row_value :: jsnum
  row_threshold :: jsnum
  row_suggestion :: string

record GroupBox =
  box_key :: string
  header :: string
  rows :: "Row list"

definition suggestionRow :: "nat \<times> Suggestion \<Rightarrow> Row" where
  "suggestionRow p =
     \<lparr> row_key = fst p, row_parameter = parameter (snd p), row_value = sugg_value (snd p),
       row_threshold = threshold (snd p), row_suggestion = suggestion (snd p) \<rparr>"

text \<open>
  The callback of \<open>.map\<close> over the entries. \<open>stationSuggestions[0]?.area || ""\<close> is the area of
  the first suggestion; the header is the name, a blank and, when the area is not empty,
  a dash and the area.
\<close>

definition groupBox :: "string \<times> Suggestion list \<Rightarrow> GroupBox" where
  "groupBox entry =
     (let stationName = fst entry; stationSuggestions = snd entry;
          area = (case stationSuggestions of [] \<Rightarrow> [] | first # _ \<Rightarrow> sugg_area first)
      in \<lparr> box_key = stationName,
           header = stationName @ '' '' @ (if area = [] then [] else ''- '' @ area),
           rows = map suggestionRow (enumerate 0 stationSuggestions) \<rparr>)"

text \<open>\<open>suggestions.length > 0 && Object.entries(suggestions.reduce(...)).map(...)\<close>.\<close>

definition renderGroups :: "Suggestion list \<Rightarrow> js_error + GroupBox list" where
  "renderGroups suggs =
     (if length suggs > 0
      then (case reduceGroups [] suggs of
              Inl e \<Rightarrow> Inl e
            | Inr acc \<Rightarrow> Inr (map groupBox (Object_entries acc)))
      else Inr [])"

text \<open>The order of first appearance of the elements of a list.\<close>

fun firstSeen :: "'a list \<Rightarrow> 'a list \<Rightarrow> 'a list" where
  "firstSeen seen [] = []"
| "firstSeen seen (x # xs) =
     (if x \<in> set seen then firstSeen seen xs else x # firstSeen (x # seen) xs)"

definition firstAppearance :: "'a list \<Rightarrow> 'a list" where
  "firstAppearance xs = firstSeen [] xs"

section \<open>The station map\<close>

text \<open>
  What the component returns: the container with its fixed viewport and one \<open>Marker\<close> per
  station. Numbers placed in the markup stay numbers here; the date formatting
  \<open>new Date(d).toLocaleString()\<close> depends on the locale of the browser and is a parameter.
\<close>

datatype html = Tag string "html list" | Text string | NumberText jsnum

record Marker =
  marker_key :: station_id
  position :: "jsnum \<times> jsnum"
  popup :: "html list"

record MapContainer =
  center :: "jsnum \<times> jsnum"
  zoom :: jsnum
  scrollWheelZoom :: bool
  markers :: "Marker list"

definition popupContent :: "(string \<Rightarrow> string) \<Rightarrow> Station \<Rightarrow> html list" where
  "popupContent toLocaleString station =
     [Tag ''h3'' [Text (name (info station))],
      (case latestReading station of
         Some reading \<Rightarrow>
           Tag ''div''
             [Tag ''p'' [Tag ''strong'' [Text ''Heat:''], Text '' '',
                         NumberText (temperature reading), Text (CHR 0xB0 # ''C'')],
              Tag ''p'' [Tag ''strong'' [Text ''Emissions:''], Text '' '',
                         NumberText (emissions reading), Text '' ppm''],
              Tag ''p'' [Tag ''strong'' [Text ''Noise:''], Text '' '',
                         NumberText (noise reading), Text '' dB''],
              Tag ''div''
                [Tag ''small'' [Text ''Latitude: '', NumberText (latitude (info station))],
                 Tag ''small'' [Text ''Longitude: '', NumberText (longitude (info station))],
                 Tag ''small'' [Text ''Last updated:'', Text '' '',
                                Text (toLocaleString (datetime reading))]]]
       | None \<Rightarrow> Tag ''p'' [Text ''No reading available''])]"

definition stationMarker :: "(string \<Rightarrow> string) \<Rightarrow> Station \<Rightarrow> Marker" where
  "stationMarker toLocaleString station =
     \<lparr> marker_key = station_id station,
       position = (latitude (info station), longitude (info station)),
       popup = popupContent toLocaleString station \<rparr>"

definition Map :: "(string \<Rightarrow> string) \<Rightarrow> Station list \<Rightarrow> MapContainer" where
  "Map toLocaleString stations =
     \<lparr> center = (Finite 32.73, Finite 74.86), zoom = Finite 11, scrollWheelZoom = True,
       markers = map (stationMarker toLocaleString) stations \<rparr>"

text \<open>What a popup shows: its texts and its numbers, in document order.\<close>

fun shownTexts :: "html \<Rightarrow> string list" where
  "shownTexts (Tag t children) = concat (map shownTexts children)"
| "shownTexts (Text s) = [s]"
| "shownTexts (NumberText n) = []"

fun shownNumbers :: "html \<Rightarrow> jsnum list" where
  "shownNumbers (Tag t children) = concat (map shownNumbers children)"
| "shownNumbers (Text s) = []"
| "shownNumbers (NumberText n) = [n]"

section \<open>Notions used to state the properties\<close>

text \<open>A value with a truthy own \<open>stationName\<close>.\<close>

fun hasStationName :: "jsval \<Rightarrow> bool" where
  "hasStationName (Obj fs) =
     (case map_of fs ''stationName'' of None \<Rightarrow> False | Some v \<Rightarrow> truthy v)"
| "hasStationName v = False"

text \<open>
  The grouping in closed form: every key already in the accumulator receives the
  suggestions of its station, and the station names not yet there follow in order of first
  appearance, each with all suggestions of that name.
\<close>

definition grouped :: "groups \<Rightarrow> Suggestion list \<Rightarrow> groups" where
  "grouped acc suggs =
     map (\<lambda>(k, items). (k, items @ filter (\<lambda>s. stationName s = k) suggs)) acc
     @ map (\<lambda>k. (k, filter (\<lambda>s. stationName s = k) suggs))
           (firstSeen (map fst acc) (map stationName suggs))"

section \<open>Sample inputs\<close>

definition sampleInfo :: "string \<Rightarrow> StationInfo" where
  "sampleInfo n = \<lparr> name = n, latitude = Finite 32.7, longitude = Finite 74.9, area = ''Gandhi Nagar'' \<rparr>"

definition hotStation :: Station where
  "hotStation =
     \<lparr> station_id = IdNum (Finite 1), info = sampleInfo ''A'',
       latestReading = Some \<lparr> datetime = ''2025-01-01T10:00:00Z'', temperature = Finite 41,
                               emissions = Finite 180, noise = Finite 90 \<rparr> \<rparr>"

definition smokyStation :: Station where
  "smokyStation =
     \<lparr> station_id = IdNum (Finite 2), info = sampleInfo ''B'',
       latestReading = Some \<lparr> datetime = ''2025-01-01T10:00:00Z'', temperature = Finite 30,
                               emissions = Finite 151, noise = Finite 90 \<rparr> \<rparr>"

definition calmStation :: Station where
  "calmStation =
     \<lparr> station_id = IdStr ''c-3'', info = sampleInfo ''C'',
       latestReading = Some \<lparr> datetime = ''2025-01-01T10:00:00Z'', temperature = Finite 30,
                               emissions = Finite 150, noise = Finite 85 \<rparr> \<rparr>"

definition silentStation :: Station where
  "silentStation =
     \<lparr> station_id = IdStr ''d-4'', info = sampleInfo ''D'', latestReading = None \<rparr>"

definition idlePanel :: Panel where
  "idlePanel = \<lparr> chatOpen = True, suggestions = Arr [], loading = False \<rparr>"

definition sampleSuggestion :: "string \<Rightarrow> string \<Rightarrow> string \<Rightarrow> Suggestion" where
  "sampleSuggestion n a p =
     \<lparr> stationName = n, sugg_area = a, parameter = p, sugg_value = Finite 99,
       threshold = Finite 85, suggestion = ''Install noise barriers.'' \<rparr>"

section \<open>Properties of the local fallback\<close>

lemma filterBoolean_append: "filterBoolean (xs @ ys) = filterBoolean xs @ filterBoolean ys"
  by (induction xs rule: filterBoolean.induct) auto

lemma localFallback_append: "localFallback (xs @ ys) = localFallback xs @ localFallback ys"
  by (simp add: localFallback_def filterBoolean_append)

lemma localFallback_single:
  "localFallback [s] = (case thresholdCheck s of None \<Rightarrow> [] | Some g \<Rightarrow> [g])"
  by (cases "thresholdCheck s") (simp_all add: localFallback_def)

lemma localFallback_split:
  "localFallback (before @ s # after) =
     localFallback before @ localFallback [s] @ localFallback after"
  using localFallback_append [of before "[s] @ after"] localFallback_append [of "[s]" after]
  by simp

lemma set_localFallback:
  "set (localFallback stations) = {g. \<exists>s \<in> set stations. thresholdCheck s = Some g}"
proof (induction stations)
  case Nil
  show ?case by (simp add: localFallback_def)
next
  case (Cons s ss)
  have "localFallback (s # ss) = localFallback [s] @ localFallback ss"
    using localFallback_append [of "[s]" ss] by simp
  then show ?case using Cons
    by (cases "thresholdCheck s") (auto simp: localFallback_single)
qed

lemma js_le_not_gt: "js_le x c \<Longrightarrow> \<not> js_gt x c"
  by (cases x) auto

text \<open>
  Claim C1. A station with a reading contributes at most one suggestion, in its place in
  the output. The checks run in the order temperature (30), emissions (150), noise (85) and
  the first one exceeded decides: a temperature above 30 gives the one Temperature
  suggestion whatever the other two readings are, in particular when all three thresholds
  are exceeded; emissions decide only when the temperature does not exceed 30, noise only
  when neither of the first two is exceeded.
\<close>

theorem fallback_priority_order:
  assumes "latestReading s = Some r"
  shows "length (localFallback [s]) \<le> 1
    \<and> localFallback (before @ s # after) =
        localFallback before @ localFallback [s] @ localFallback after
    \<and> (js_gt (temperature r) 30 \<longrightarrow>
          localFallback [s] = [\<lparr> stationName = name (info s), sugg_area = area (info s),
               parameter = ''Temperature'', sugg_value = temperature r, threshold = Finite 30,
               suggestion = ''Deploy cooling systems or improve ventilation.'' \<rparr>])
    \<and> (js_gt (temperature r) 30 \<and> js_gt (emissions r) 150 \<and> js_gt (noise r) 85 \<longrightarrow>
          map parameter (localFallback [s]) = [''Temperature''])
    \<and> (\<not> js_gt (temperature r) 30 \<and> js_gt (emissions r) 150 \<longrightarrow>
          map parameter (localFallback [s]) = [''PM 2.5 Emissions'']
          \<and> map threshold (localFallback [s]) = [Finite 150])
    \<and> (\<not> js_gt (temperature r) 30 \<and> \<not> js_gt (emissions r) 150 \<and> js_gt (noise r) 85 \<longrightarrow>
          map parameter (localFallback [s]) = [''Noise'']
          \<and> map threshold (localFallback [s]) = [Finite 85])
    \<and> (\<not> js_gt (temperature r) 30 \<and> \<not> js_gt (emissions r) 150 \<and> \<not> js_gt (noise r) 85 \<longrightarrow>
          localFallback [s] = [])"
  using assms localFallback_split [of before s after]
  by (simp add: localFallback_def thresholdCheck_def chain_def)

theorem fallback_priority_order_witness:
  "map parameter (localFallback [hotStation]) = [''Temperature'']
   \<and> localFallback [calmStation, hotStation, silentStation] = localFallback [hotStation]"
  using fallback_priority_order
          [of hotStation "the (latestReading hotStation)" "[calmStation]" "[silentStation]"]
  by (simp add: hotStation_def calmStation_def silentStation_def localFallback_def
        thresholdCheck_def chain_def)

text \<open>
  Claim C4. Every suggestion of the fallback comes from a station of the input that has a
  reading: it carries that station's name and area, its parameter is one of the three
  labels, its value is the field of that reading which the parameter selects, and its
  threshold is the constant of that parameter (30, 150, 85).
\<close>

theorem fallback_suggestion_invariant:
  assumes "g \<in> set (localFallback stations)"
  shows "\<exists>s r. s \<in> set stations \<and> latestReading s = Some r
           \<and> stationName g = name (info s) \<and> sugg_area g = area (info s)
           \<and> (parameter g = ''Temperature'' \<or> parameter g = ''PM 2.5 Emissions''
                \<or> parameter g = ''Noise'')
           \<and> sugg_value g = (if parameter g = ''Temperature'' then temperature r
                              else if parameter g = ''PM 2.5 Emissions'' then emissions r
                              else noise r)
           \<and> threshold g = (if parameter g = ''Temperature'' then Finite 30
                             else if parameter g = ''PM 2.5 Emissions'' then Finite 150
                             else Finite 85)"
proof -
  from assms obtain s where s: "s \<in> set stations" "thresholdCheck s = Some g"
    by (auto simp: set_localFallback)
  show ?thesis
  proof (cases "latestReading s")
    case None
    with s(2) show ?thesis by (simp add: thresholdCheck_def chain_def)
  next
    case (Some r)
    with s(2) have "stationName g = name (info s) \<and> sugg_area g = area (info s)
           \<and> (parameter g = ''Temperature'' \<or> parameter g = ''PM 2.5 Emissions''
                \<or> parameter g = ''Noise'')
           \<and> sugg_value g = (if parameter g = ''Temperature'' then temperature r
                              else if parameter g = ''PM 2.5 Emissions'' then emissions r
                              else noise r)
           \<and> threshold g = (if parameter g = ''Temperature'' then Finite 30
                             else if parameter g = ''PM 2.5 Emissions'' then Finite 150
                             else Finite 85)"
      by (auto simp: thresholdCheck_def chain_def split: if_splits)
    with s(1) Some show ?thesis by blast
  qed
qed

theorem fallback_suggestion_invariant_witness:
  "\<lparr> stationName = ''B'', sugg_area = ''Gandhi Nagar'', parameter = ''PM 2.5 Emissions'',
     sugg_value = Finite 151, threshold = Finite 150,
     suggestion = ''Implement carbon capture technologies or reduce operational hours.'' \<rparr>
     \<in> set (localFallback [calmStation, smokyStation])
   \<and> (\<exists>s r. s \<in> set [calmStation, smokyStation] \<and> latestReading s = Some r
          \<and> name (info s) = ''B'' \<and> emissions r = Finite 151)"
proof -
  let ?g = "\<lparr> stationName = ''B'', sugg_area = ''Gandhi Nagar'',
              parameter = ''PM 2.5 Emissions'', sugg_value = Finite 151,
              threshold = Finite 150,
              suggestion =
                ''Implement carbon capture technologies or reduce operational hours.'' \<rparr>"
  have mem: "?g \<in> set (localFallback [calmStation, smokyStation])"
    by (simp add: localFallback_def thresholdCheck_def chain_def calmStation_def
          smokyStation_def sampleInfo_def)
  from fallback_suggestion_invariant [OF mem]
  obtain s r where "s \<in> set [calmStation, smokyStation]" "latestReading s = Some r"
    "stationName ?g = name (info s)" "sugg_value ?g = emissions r"
    by auto
  then have "\<exists>s r. s \<in> set [calmStation, smokyStation] \<and> latestReading s = Some r
          \<and> name (info s) = ''B'' \<and> emissions r = Finite 151"
    by (intro exI [of _ s] exI [of _ r]) simp
  with mem show ?thesis by (rule conjI)
qed

text \<open>
  Claim C5. A station whose reading is null, and a station whose reading exceeds none of the
  three thresholds, gives no suggestion: the callback returns null for it, and the fallback
  of a station list is the same with or without it. The fallback reads nothing but the
  station list, so this is independent of the remote response.
\<close>

theorem fallback_skips_quiet_stations:
  assumes "latestReading s = None
           \<or> (latestReading s = Some r \<and> \<not> js_gt (temperature r) 30
               \<and> \<not> js_gt (emissions r) 150 \<and> \<not> js_gt (noise r) 85)"
  shows "thresholdCheck s = None \<and> localFallback [s] = []
         \<and> localFallback (before @ s # after) = localFallback (before @ after)"
proof -
  from assms have none: "thresholdCheck s = None"
    by (auto simp: thresholdCheck_def chain_def)
  then have one: "localFallback [s] = []"
    by (simp add: localFallback_single)
  have "localFallback (before @ s # after) = localFallback (before @ after)"
    using localFallback_split [of before s after] one by (simp add: localFallback_append)
  with none one show ?thesis by simp
qed

theorem fallback_skips_quiet_stations_witness:
  "localFallback [silentStation] = []
   \<and> localFallback [hotStation, calmStation, smokyStation] =
       localFallback [hotStation, smokyStation]"
  using fallback_skips_quiet_stations [of silentStation undefined "[]" "[]"]
        fallback_skips_quiet_stations
          [of calmStation "the (latestReading calmStation)" "[hotStation]" "[smokyStation]"]
  by (simp add: silentStation_def calmStation_def)

text \<open>
  Claim C7. A station with a reading whose temperature is at most 30 and whose emissions
  exceed 150 gives exactly one suggestion, in its place in the output: parameter
  \<open>PM 2.5 Emissions\<close>, the reading's emissions as value, threshold 150.
\<close>

theorem fallback_emissions_suggestion:
  assumes "latestReading s = Some r" "js_le (temperature r) 30" "js_gt (emissions r) 150"
  shows "localFallback [s] =
           [\<lparr> stationName = name (info s), sugg_area = area (info s),
               parameter = ''PM 2.5 Emissions'', sugg_value = emissions r,
               threshold = Finite 150,
               suggestion = ''Implement carbon capture technologies or reduce operational hours.'' \<rparr>]
         \<and> localFallback (before @ s # after) =
            localFallback before @
            [\<lparr> stationName = name (info s), sugg_area = area (info s),
               parameter = ''PM 2.5 Emissions'', sugg_value = emissions r,
               threshold = Finite 150,
               suggestion = ''Implement carbon capture technologies or reduce operational hours.'' \<rparr>]
            @ localFallback after"
proof -
  from assms(2) have "\<not> js_gt (temperature r) 30" by (rule js_le_not_gt)
  with assms(1,3) have "thresholdCheck s = Some \<lparr> stationName = name (info s), sugg_area = area (info s),
               parameter = ''PM 2.5 Emissions'', sugg_value = emissions r,
               threshold = Finite 150,
               suggestion = ''Implement carbon capture technologies or reduce operational hours.'' \<rparr>"
    by (simp add: thresholdCheck_def chain_def)
  then have one: "localFallback [s] = [\<lparr> stationName = name (info s), sugg_area = area (info s),
               parameter = ''PM 2.5 Emissions'', sugg_value = emissions r,
               threshold = Finite 150,
               suggestion = ''Implement carbon capture technologies or reduce operational hours.'' \<rparr>]"
    by (simp add: localFallback_single)
  show ?thesis
    using localFallback_split [of before s after] one by simp
qed

theorem fallback_emissions_suggestion_witness:
  "localFallback [smokyStation] =
     [\<lparr> stationName = ''B'', sugg_area = ''Gandhi Nagar'', parameter = ''PM 2.5 Emissions'',
        sugg_value = Finite 151, threshold = Finite 150,
        suggestion = ''Implement carbon capture technologies or reduce operational hours.'' \<rparr>]"
  using fallback_emissions_suggestion [of smokyStation "the (latestReading smokyStation)" "[]" "[]"]
  by (simp add: smokyStation_def sampleInfo_def)

section \<open>Properties of the analysis\<close>

text \<open>
  A rejected request, a response that is not ok and a body that is not JSON all end the
  \<open>try\<close> body with an exception, and every exception of the \<open>try\<close> body ends in the fallback.
\<close>

lemma failure_absorbed:
  assumes "tryBody parse r = Inl e"
  shows "analyzeStationsWithAI parse r stations st =
         Completed (st\<lparr> suggestions := Arr (map suggestionObject (localFallback stations)),
                        loading := False \<rparr>)"
  using assms by (simp add: analyzeStationsWithAI_def)

lemma tryBody_failures:
  "tryBody parse FetchRejected = Inl NetworkError"
  "tryBody parse (Response False body) = Inl ServerError"
  "tryBody parse (Response True None) = Inl SyntaxError"
  by (simp_all add: tryBody_def)

text \<open>
  Claim C6. The one station named A with temperature 35, emissions 10 and noise 20, with
  the endpoint failing (the request rejected, or a response that is not ok): the fallback
  gives the one suggestion for A with parameter Temperature, value 35, threshold 30 and the
  cooling advice; this is what the panel shows at the end, loading off.
\<close>

theorem fallback_scenario_station_A:
  "localFallback
     [\<lparr> station_id = i, info = \<lparr> name = ''A'', latitude = la, longitude = lo, area = ar \<rparr>,
        latestReading = Some \<lparr> datetime = d, temperature = Finite 35, emissions = Finite 10,
                                noise = Finite 20 \<rparr> \<rparr>]
   = [\<lparr> stationName = ''A'', sugg_area = ar, parameter = ''Temperature'',
        sugg_value = Finite 35, threshold = Finite 30,
        suggestion = ''Deploy cooling systems or improve ventilation.'' \<rparr>]
   \<and> analyzeStationsWithAI parse FetchRejected
     [\<lparr> station_id = i, info = \<lparr> name = ''A'', latitude = la, longitude = lo, area = ar \<rparr>,
        latestReading = Some \<lparr> datetime = d, temperature = Finite 35, emissions = Finite 10,
                                noise = Finite 20 \<rparr> \<rparr>] st
   = Completed (st\<lparr> suggestions :=
        Arr [Obj [(''stationName'', Str ''A''), (''area'', Str ar),
                  (''parameter'', Str ''Temperature''), (''value'', Num (Finite 35)),
                  (''threshold'', Num (Finite 30)),
                  (''suggestion'', Str ''Deploy cooling systems or improve ventilation.'')]],
        loading := False \<rparr>)
   \<and> analyzeStationsWithAI parse (Response False body)
     [\<lparr> station_id = i, info = \<lparr> name = ''A'', latitude = la, longitude = lo, area = ar \<rparr>,
        latestReading = Some \<lparr> datetime = d, temperature = Finite 35, emissions = Finite 10,
                                noise = Finite 20 \<rparr> \<rparr>] st
   = Completed (st\<lparr> suggestions :=
        Arr [Obj [(''stationName'', Str ''A''), (''area'', Str ar),
                  (''parameter'', Str ''Temperature''), (''value'', Num (Finite 35)),
                  (''threshold'', Num (Finite 30)),
                  (''suggestion'', Str ''Deploy cooling systems or improve ventilation.'')]],
        loading := False \<rparr>)"
  by (simp add: failure_absorbed tryBody_failures localFallback_def thresholdCheck_def chain_def
        suggestionObject_def)

theorem fallback_scenario_station_A_witness:
  "analyzeStationsWithAI parseLiterals FetchRejected
     [\<lparr> station_id = IdStr ''a-1'',
        info = \<lparr> name = ''A'', latitude = Finite 32.7, longitude = Finite 74.9,
                 area = ''Gandhi Nagar'' \<rparr>,
        latestReading = Some \<lparr> datetime = ''2025-01-01T10:00:00Z'', temperature = Finite 35,
                                emissions = Finite 10, noise = Finite 20 \<rparr> \<rparr>] idlePanel
   = Completed \<lparr> chatOpen = True,
       suggestions =
         Arr [Obj [(''stationName'', Str ''A''), (''area'', Str ''Gandhi Nagar''),
                   (''parameter'', Str ''Temperature''), (''value'', Num (Finite 35)),
                   (''threshold'', Num (Finite 30)),
                   (''suggestion'', Str ''Deploy cooling systems or improve ventilation.'')]],
       loading = False \<rparr>"
  using fallback_scenario_station_A
          [of "IdStr ''a-1''" "Finite 32.7" "Finite 74.9" "''Gandhi Nagar''"
              "''2025-01-01T10:00:00Z''" parseLiterals idlePanel None]
  by (simp add: idlePanel_def)

lemma envelopePath_array:
  "parse [] = None \<Longrightarrow> envelopePath parse (Arr xs) = Inr (Arr [])"
  by (simp add: envelopePath_def extractContent_def andThen_def optIndex0_def optProp_def trim_def)

text \<open>
  Claim C2. A successful response whose body is the empty array: the array has no first
  element, so it is not taken as a direct result; as an array it has no \<open>choices\<close>, so the
  content is the empty text, which \<open>JSON.parse\<close> rejects; the result stays empty and the
  fallback runs. The panel ends with the fallback of the station list, loading off.
\<close>

theorem empty_remote_array_falls_back:
  assumes "parse [] = None"
  shows "analyzeStationsWithAI parse (Response True (Some (Arr []))) stations st =
         Completed (st\<lparr> suggestions := Arr (map suggestionObject (localFallback stations)),
                        loading := False \<rparr>)"
  using assms
  by (simp add: analyzeStationsWithAI_def tryBody_def directArray_def andThen_def optProp_def
        envelopePath_array)

theorem empty_remote_array_falls_back_witness:
  "analyzeStationsWithAI parseLiterals (Response True (Some (Arr []))) [hotStation] idlePanel =
     Completed \<lparr> chatOpen = True,
       suggestions = Arr [Obj [(''stationName'', Str ''A''), (''area'', Str ''Gandhi Nagar''),
                  (''parameter'', Str ''Temperature''), (''value'', Num (Finite 41)),
                  (''threshold'', Num (Finite 30)),
                  (''suggestion'', Str ''Deploy cooling systems or improve ventilation.'')]],
       loading = False \<rparr>"
  using empty_remote_array_falls_back [of parseLiterals "[hotStation]" idlePanel]
  by (simp add: parseLiterals_def idlePanel_def hotStation_def sampleInfo_def localFallback_def
        thresholdCheck_def chain_def suggestionObject_def)

text \<open>
  Claim C3 says that every failure at the analysis boundary is absorbed and the call always
  ends with loading off. The code does not do that for an envelope whose content is the
  JSON text \<open>null\<close>: the parse succeeds with \<open>null\<close>, the read of \<open>finalSuggestions.length\<close>
  behind the \<open>try\<close> statement throws a \<open>TypeError\<close> that nothing catches, and the panel stays
  in the state the first two setters left: loading on, suggestions empty.
\<close>

theorem null_content_escapes_analysis:
  assumes "parse ''null'' = Some Null"
  shows "analyzeStationsWithAI parse
           (Response True (Some (Obj [(''choices'',
              Arr [Obj [(''message'', Obj [(''content'', Str ''null'')])]])])))
           stations st =
         Uncaught TypeError (st\<lparr> loading := True, suggestions := Arr [] \<rparr>)"
  using assms
  by (simp add: analyzeStationsWithAI_def tryBody_def directArray_def andThen_def optProp_def
        optIndex0_def envelopePath_def extractContent_def trim_def isWhiteSpace_def)

theorem null_content_escapes_analysis_witness:
  "analyzeStationsWithAI parseLiterals
     (Response True (Some (Obj [(''choices'',
        Arr [Obj [(''message'', Obj [(''content'', Str ''null'')])]])])))
     [hotStation] idlePanel =
   Uncaught TypeError \<lparr> chatOpen = True, suggestions = Arr [], loading = True \<rparr>"
  using null_content_escapes_analysis [of parseLiterals "[hotStation]" idlePanel]
  by (simp add: parseLiterals_def idlePanel_def)

text \<open>An exception leaves the call only when the \<open>try\<close> statement ends with \<open>null\<close>.\<close>

lemma uncaught_only_on_nullish:
  assumes "analyzeStationsWithAI parse r stations st = Uncaught e st'"
  shows "e = TypeError \<and> st' = st\<lparr> loading := True, suggestions := Arr [] \<rparr>
         \<and> (tryBody parse r = Inr Null \<or> tryBody parse r = Inr Undefined)"
proof (cases "tryBody parse r")
  case (Inl e')
  with assms show ?thesis by (simp add: analyzeStationsWithAI_def)
next
  case (Inr v)
  with assms show ?thesis
    by (cases v) (auto simp: analyzeStationsWithAI_def)
qed

lemma directArray_Arr:
  "directArray (Arr (first # rest)) = Inr (hasStationName first)"
  by (cases first) (simp_all add: directArray_def andThen_def optProp_def split: option.splits)

lemma directArray_iff:
  "(directArray apiData = Inr True) = (\<exists>first rest. apiData = Arr (first # rest) \<and> hasStationName first)"
proof (cases apiData)
  case (Arr xs)
  then show ?thesis
    by (cases xs) (simp_all add: directArray_Arr, simp add: directArray_def andThen_def optProp_def)
qed (simp_all add: directArray_def)

text \<open>
  Claim C10. The payload is taken as a direct suggestion array exactly when it is an array
  whose first element has a truthy \<open>stationName\<close>. Such an array becomes the displayed
  result as it is, whatever its other elements are. An array whose first element has no
  truthy \<open>stationName\<close> goes down the envelope path whatever its other elements are, and
  since \<open>JSON.parse\<close> rejects the empty text, the panel ends with the local fallback.
\<close>

theorem direct_array_sniffing:
  "((directArray apiData = Inr True) =
      (\<exists>first rest. apiData = Arr (first # rest) \<and> hasStationName first))
   \<and> (hasStationName x \<longrightarrow>
        tryBody parse (Response True (Some (Arr (x # xs)))) = Inr (Arr (x # xs))
        \<and> analyzeStationsWithAI parse (Response True (Some (Arr (x # xs)))) stations st =
            Completed (st\<lparr> suggestions := Arr (x # xs), loading := False \<rparr>))
   \<and> (\<not> hasStationName y \<longrightarrow>
        tryBody parse (Response True (Some (Arr (y # ys)))) = envelopePath parse (Arr (y # ys)))
   \<and> (\<not> hasStationName y \<and> parse [] = None \<longrightarrow>
        analyzeStationsWithAI parse (Response True (Some (Arr (y # ys)))) stations st =
          Completed (st\<lparr> suggestions := Arr (map suggestionObject (localFallback stations)),
                         loading := False \<rparr>))"
  by (simp add: directArray_iff directArray_Arr tryBody_def andThen_def analyzeStationsWithAI_def
        envelopePath_array)

theorem direct_array_sniffing_witness:
  "analyzeStationsWithAI parseLiterals
     (Response True (Some (Arr [Obj [(''stationName'', Str ''A'')], Num (Finite 7), Null])))
     [hotStation] idlePanel
   = Completed \<lparr> chatOpen = True,
       suggestions = Arr [Obj [(''stationName'', Str ''A'')], Num (Finite 7), Null],
       loading = False \<rparr>
   \<and> analyzeStationsWithAI parseLiterals
     (Response True (Some (Arr [Obj [(''area'', Str ''X'')],
          suggestionObject (sampleSuggestion ''B'' ''X'' ''Noise'')])))
     [hotStation] idlePanel
   = Completed \<lparr> chatOpen = True,
       suggestions = Arr [suggestionObject
         \<lparr> stationName = ''A'', sugg_area = ''Gandhi Nagar'', parameter = ''Temperature'',
           sugg_value = Finite 41, threshold = Finite 30,
           suggestion = ''Deploy cooling systems or improve ventilation.'' \<rparr>],
       loading = False \<rparr>"
  using direct_array_sniffing
          [of _ "Obj [(''stationName'', Str ''A'')]" parseLiterals "[Num (Finite 7), Null]"
              "[hotStation]" idlePanel "Obj [(''area'', Str ''X'')]"
              "[suggestionObject (sampleSuggestion ''B'' ''X'' ''Noise'')]"]
  by (simp add: parseLiterals_def idlePanel_def hotStation_def sampleInfo_def localFallback_def
        thresholdCheck_def chain_def)

section \<open>Properties of the grouping\<close>

lemma firstSeen_cong:
  assumes "set seen = set seen'"
  shows "firstSeen seen xs = firstSeen seen' xs"
  using assms
proof (induction xs arbitrary: seen seen')
  case Nil
  show ?case by simp
next
  case (Cons x xs)
  have mem: "(x \<in> set seen) = (x \<in> set seen')"
    by (simp only: Cons.prems)
  have "set (x # seen) = set (x # seen')"
    by (simp only: list.set Cons.prems)
  then have step: "firstSeen (x # seen) xs = firstSeen (x # seen') xs"
    by (rule Cons.IH)
  have rest: "firstSeen seen xs = firstSeen seen' xs"
    using Cons.prems by (rule Cons.IH)
  show ?case
    by (simp only: firstSeen.simps mem step rest)
qed

lemma set_firstSeen: "set (firstSeen seen xs) = set xs - set seen"
  by (induction xs arbitrary: seen) auto

lemma firstSeen_disjoint: "set (firstSeen seen xs) \<inter> set seen = {}"
  by (auto simp: set_firstSeen)

lemma distinct_firstSeen: "distinct (firstSeen seen xs)"
  by (induction xs arbitrary: seen) (auto simp: set_firstSeen)

lemma groupStep_known:
  assumes "stationName c \<in> fst ` set acc"
  shows "groupStep acc c = Inr (pushAt acc (stationName c) c)"
proof -
  from assms obtain items where "map_of acc (stationName c) = Some items"
    by (metis map_of_eq_None_iff not_Some_eq)
  then show ?thesis by (simp add: groupStep_def readKey_def)
qed

lemma pushAt_other: "k \<notin> fst ` set acc \<Longrightarrow> pushAt acc k c = acc"
  by (induction acc) (auto simp: pushAt_def)

lemma groupStep_new:
  assumes "stationName c \<notin> fst ` set acc" "stationName c \<notin> set Object_prototype_keys"
  shows "groupStep acc c = Inr (acc @ [(stationName c, [c])])"
proof -
  from assms(1) have none: "map_of acc (stationName c) = None"
    by (simp add: map_of_eq_None_iff)
  then have some: "map_of (acc @ [(stationName c, [])]) (stationName c) = Some []"
    by (simp add: map_add_def)
  have r1: "readKey acc (stationName c) = Missing"
    using none assms(2) by (simp add: readKey_def)
  have r2: "readKey (acc @ [(stationName c, [])]) (stationName c) = Own []"
    unfolding readKey_def some by simp
  have push: "pushAt (acc @ [(stationName c, [])]) (stationName c) c = acc @ [(stationName c, [c])]"
    using pushAt_other [OF assms(1)] by (simp add: pushAt_def)
  show ?thesis
    unfolding groupStep_def Let_def r1 by (simp add: r2 push del: map_of_append)
qed

lemma groupStep_inherited:
  assumes "stationName c \<notin> fst ` set acc" "stationName c \<in> set Object_prototype_keys"
  shows "groupStep acc c = Inl TypeError"
proof -
  from assms(1) have "map_of acc (stationName c) = None"
    by (simp add: map_of_eq_None_iff)
  with assms show ?thesis
    by (simp add: groupStep_def readKey_def)
qed

lemma grouped_known:
  assumes "stationName c \<in> fst ` set acc"
  shows "grouped (pushAt acc (stationName c) c) rest = grouped acc (c # rest)"
proof -
  have keys: "map fst (pushAt acc (stationName c) c) = map fst acc"
    by (induction acc) (auto simp: pushAt_def)
  have a: "map (\<lambda>(k, items). (k, items @ filter (\<lambda>s. stationName s = k) rest)) (pushAt acc (stationName c) c)
         = map (\<lambda>(k, items). (k, items @ filter (\<lambda>s. stationName s = k) (c # rest))) acc"
    by (induction acc) (auto simp: pushAt_def)
  have "stationName c \<in> set (map fst acc)" using assms by simp
  then have fs: "firstSeen (map fst acc) (map stationName (c # rest)) = firstSeen (map fst acc) (map stationName rest)"
    by simp
  have "\<forall>k \<in> set (firstSeen (map fst acc) (map stationName rest)). stationName c \<noteq> k"
    using firstSeen_disjoint [of "map fst acc" "map stationName rest"] assms by auto
  then have b: "map (\<lambda>k. (k, filter (\<lambda>s. stationName s = k) (c # rest))) (firstSeen (map fst acc) (map stationName rest))
      = map (\<lambda>k. (k, filter (\<lambda>s. stationName s = k) rest)) (firstSeen (map fst acc) (map stationName rest))"
    by (intro map_cong) auto
  show ?thesis
    unfolding grouped_def keys a fs b ..
qed

lemma grouped_new:
  assumes "stationName c \<notin> fst ` set acc"
  shows "grouped (acc @ [(stationName c, [c])]) rest = grouped acc (c # rest)"
proof -
  let ?F = "\<lambda>xs. (\<lambda>(k, items). (k, items @ filter (\<lambda>s. stationName s = k) xs))"
  let ?G = "\<lambda>xs. (\<lambda>k. (k, filter (\<lambda>s. stationName s = k) xs))"
  let ?FS = "firstSeen (stationName c # map fst acc) (map stationName rest)"
  have a: "map (?F (c # rest)) acc = map (?F rest) acc"
    using assms by (intro map_cong) force+
  have fs1: "firstSeen (map fst acc) (map stationName (c # rest)) = stationName c # ?FS"
    using assms by simp
  have fs2: "firstSeen (map fst (acc @ [(stationName c, [c])])) (map stationName rest) = ?FS"
    by (rule firstSeen_cong) auto
  have "\<forall>k \<in> set ?FS. stationName c \<noteq> k"
    by (auto simp: set_firstSeen)
  then have b: "map (?G (c # rest)) ?FS = map (?G rest) ?FS"
    by (intro map_cong) auto
  have "grouped acc (c # rest) = map (?F (c # rest)) acc @ map (?G (c # rest)) (stationName c # ?FS)"
    by (simp only: grouped_def fs1)
  also have "\<dots> = map (?F rest) acc @ ?G (c # rest) (stationName c) # map (?G rest) ?FS"
    by (simp only: list.map a b)
  also have "\<dots> = map (?F rest) (acc @ [(stationName c, [c])]) @ map (?G rest) ?FS"
    by simp
  also have "\<dots> = grouped (acc @ [(stationName c, [c])]) rest"
    by (simp only: grouped_def fs2)
  finally show ?thesis by (rule sym)
qed

lemma reduceGroups_grouped:
  assumes "\<forall>s \<in> set suggs. stationName s \<notin> set Object_prototype_keys"
  shows "reduceGroups acc suggs = Inr (grouped acc suggs)"
  using assms
proof (induction suggs arbitrary: acc)
  case Nil
  show ?case by (simp add: grouped_def)
next
  case (Cons c rest)
  show ?case
  proof (cases "stationName c \<in> fst ` set acc")
    case True
    then show ?thesis using Cons by (simp add: groupStep_known grouped_known)
  next
    case False
    then show ?thesis using Cons by (simp add: groupStep_new grouped_new)
  qed
qed

lemma map_insort_key:
  "map f (insort_key (\<lambda>x. g (f x)) a xs) = insort_key g (f a) (map f xs)"
  by (induction xs) auto

lemma map_sort_key:
  "map f (sort_key (\<lambda>x. g (f x)) xs) = sort_key g (map f xs)"
  by (induction xs) (auto simp: map_insort_key)

lemma map_fst_filter: "map fst (filter (\<lambda>e. P (fst e)) xs) = filter P (map fst xs)"
  by (induction xs) auto

lemma keys_Object_entries:
  "map fst (Object_entries obj) =
     sort_key indexValue (filter isArrayIndex (map fst obj)) @ filter (\<lambda>k. \<not> isArrayIndex k) (map fst obj)"
  unfolding Object_entries_def map_append
  by (simp only: map_sort_key map_fst_filter [of isArrayIndex]
        map_fst_filter [of "\<lambda>k. \<not> isArrayIndex k"])

lemma set_Object_entries: "set (Object_entries obj) = set obj"
  by (auto simp: Object_entries_def)

lemma distinct_keys_Object_entries:
  "distinct (map fst obj) \<Longrightarrow> distinct (map fst (Object_entries obj))"
proof -
  assume d: "distinct (map fst obj)"
  have "set (filter isArrayIndex (map fst obj)) \<inter> set (filter (\<lambda>k. \<not> isArrayIndex k) (map fst obj)) = {}"
    by auto
  with d show ?thesis
    unfolding keys_Object_entries distinct_append distinct_sort set_sort
    by (simp only: distinct_filter simp_thms)
qed


lemma grouped_Nil:
  "grouped [] suggs =
     map (\<lambda>k. (k, filter (\<lambda>s. stationName s = k) suggs)) (firstAppearance (map stationName suggs))"
  by (simp add: grouped_def firstAppearance_def)

lemma renderGroups_grouped:
  assumes "\<forall>s \<in> set suggs. stationName s \<notin> set Object_prototype_keys"
  shows "renderGroups suggs = Inr (map groupBox (Object_entries (grouped [] suggs)))"
proof (cases suggs)
  case Nil
  then show ?thesis
    by (simp add: renderGroups_def grouped_def Object_entries_def)
next
  case (Cons c rest)
  then show ?thesis
    using reduceGroups_grouped [OF assms, of "[]"] by (simp add: renderGroups_def)
qed

lemma set_firstAppearance: "set (firstAppearance xs) = set xs"
  by (simp add: firstAppearance_def set_firstSeen)

lemma box_key_groupBox: "box_key (groupBox e) = fst e"
  by (simp add: groupBox_def Let_def)

lemma groupBox_entry:
  assumes "items = first # rest"
  shows "groupBox (k, items) =
           \<lparr> box_key = k,
             header = k @ '' '' @ (if sugg_area first = [] then [] else ''- '' @ sugg_area first),
             rows = map suggestionRow (enumerate 0 items) \<rparr>"
  using assms by (simp add: groupBox_def Let_def)

text \<open>
  Claim C8, amended. For a suggestion list in which no station name is a property name
  inherited from \<open>Object.prototype\<close>, the rendering succeeds; all suggestions of one station
  name are the rows of one box, and no two boxes have the same name; the header of a box is
  the station name and the area of the first suggestion of that name; the boxes come in the
  order of \<open>Object.entries\<close>: the names that are array indices first, ascending, then the
  other names in order of first appearance. So the order is the order of first appearance
  when no station name is an array index.
\<close>

theorem grouping_by_station:
  assumes "\<forall>s \<in> set suggs. stationName s \<notin> set Object_prototype_keys"
  shows "\<exists>boxes. renderGroups suggs = Inr boxes
     \<and> distinct (map box_key boxes)
     \<and> set (map box_key boxes) = set (map stationName suggs)
     \<and> (\<forall>b \<in> set boxes.
           rows b = map suggestionRow
                      (enumerate 0 (filter (\<lambda>s. stationName s = box_key b) suggs))
           \<and> (\<exists>first rest.
                 filter (\<lambda>s. stationName s = box_key b) suggs = first # rest
                 \<and> header b = box_key b @ '' '' @
                      (if sugg_area first = [] then [] else ''- '' @ sugg_area first)))
     \<and> map box_key boxes =
         sort_key indexValue (filter isArrayIndex (firstAppearance (map stationName suggs)))
         @ filter (\<lambda>k. \<not> isArrayIndex k) (firstAppearance (map stationName suggs))
     \<and> ((\<forall>s \<in> set suggs. \<not> isArrayIndex (stationName s)) \<longrightarrow>
          map box_key boxes = firstAppearance (map stationName suggs))"
proof -
  let ?names = "firstAppearance (map stationName suggs)"
  let ?E = "Object_entries (grouped [] suggs)"
  let ?boxes = "map groupBox ?E"
  have r: "renderGroups suggs = Inr ?boxes"
    by (rule renderGroups_grouped [OF assms])
  have gk: "map fst (grouped [] suggs) = ?names"
    by (simp add: grouped_Nil comp_def)
  have bk: "map box_key ?boxes = map fst ?E"
    by (simp add: box_key_groupBox comp_def)
  have order: "map box_key ?boxes =
      sort_key indexValue (filter isArrayIndex ?names) @ filter (\<lambda>k. \<not> isArrayIndex k) ?names"
    unfolding bk keys_Object_entries gk ..
  have dist: "distinct (map box_key ?boxes)"
    unfolding bk
    by (rule distinct_keys_Object_entries) (simp add: gk firstAppearance_def distinct_firstSeen)
  have keys: "set (map box_key ?boxes) = set (map stationName suggs)"
  proof -
    have "set (map fst ?E) = fst ` set (grouped [] suggs)"
      by (simp add: set_Object_entries)
    also have "\<dots> = set (map fst (grouped [] suggs))" by simp
    also have "\<dots> = set (map stationName suggs)"
      unfolding gk by (rule set_firstAppearance)
    finally show ?thesis unfolding bk .
  qed
  have each: "\<forall>b \<in> set ?boxes.
           rows b = map suggestionRow
                      (enumerate 0 (filter (\<lambda>s. stationName s = box_key b) suggs))
           \<and> (\<exists>first rest.
                 filter (\<lambda>s. stationName s = box_key b) suggs = first # rest
                 \<and> header b = box_key b @ '' '' @
                      (if sugg_area first = [] then [] else ''- '' @ sugg_area first))"
  proof
    fix b assume "b \<in> set ?boxes"
    then obtain e where e: "e \<in> set (grouped [] suggs)" "b = groupBox e"
      by (auto simp: set_Object_entries)
    from e(1) obtain k where k: "k \<in> set ?names" "e = (k, filter (\<lambda>s. stationName s = k) suggs)"
      by (auto simp: grouped_Nil)
    from k(1) have "k \<in> set (map stationName suggs)"
      by (simp only: set_firstAppearance)
    then have "filter (\<lambda>s. stationName s = k) suggs \<noteq> []"
      by (auto simp: filter_empty_conv)
    then obtain first rest where fr: "filter (\<lambda>s. stationName s = k) suggs = first # rest"
      by (cases "filter (\<lambda>s. stationName s = k) suggs") auto
    have b: "b = \<lparr> box_key = k,
             header = k @ '' '' @ (if sugg_area first = [] then [] else ''- '' @ sugg_area first),
             rows = map suggestionRow (enumerate 0 (filter (\<lambda>s. stationName s = k) suggs)) \<rparr>"
      unfolding e(2) k(2) by (rule groupBox_entry [OF fr])
    show "rows b = map suggestionRow
                      (enumerate 0 (filter (\<lambda>s. stationName s = box_key b) suggs))
           \<and> (\<exists>first rest.
                 filter (\<lambda>s. stationName s = box_key b) suggs = first # rest
                 \<and> header b = box_key b @ '' '' @
                      (if sugg_area first = [] then [] else ''- '' @ sugg_area first))"
      using fr by (simp add: b)
  qed
  have plain: "(\<forall>s \<in> set suggs. \<not> isArrayIndex (stationName s)) \<longrightarrow>
          map box_key ?boxes = ?names"
  proof
    assume "\<forall>s \<in> set suggs. \<not> isArrayIndex (stationName s)"
    then have "\<forall>k \<in> set ?names. \<not> isArrayIndex k"
      by (auto simp: set_firstAppearance)
    then have "filter isArrayIndex ?names = []" "filter (\<lambda>k. \<not> isArrayIndex k) ?names = ?names"
      by (simp_all add: filter_empty_conv filter_id_conv)
    then show "map box_key ?boxes = ?names"
      unfolding order by simp
  qed
  from r dist keys each order plain show ?thesis by blast
qed

theorem grouping_by_station_witness:
  "renderGroups [sampleSuggestion ''B'' ''West'' ''Noise'',
                 sampleSuggestion ''A'' [] ''Temperature'',
                 sampleSuggestion ''B'' ''South'' ''Temperature'']
   = Inr [\<lparr> box_key = ''B'', header = ''B - West'',
             rows = [\<lparr> row_key = 0, row_parameter = ''Noise'', row_value = Finite 99,
                       row_threshold = Finite 85, row_suggestion = ''Install noise barriers.'' \<rparr>,
                     \<lparr> row_key = 1, row_parameter = ''Temperature'', row_value = Finite 99,
                       row_threshold = Finite 85, row_suggestion = ''Install noise barriers.'' \<rparr>] \<rparr>,
          \<lparr> box_key = ''A'', header = ''A '',
             rows = [\<lparr> row_key = 0, row_parameter = ''Temperature'', row_value = Finite 99,
                       row_threshold = Finite 85, row_suggestion = ''Install noise barriers.'' \<rparr>] \<rparr>]"
  using grouping_by_station [of "[sampleSuggestion ''B'' ''West'' ''Noise'',
                 sampleSuggestion ''A'' [] ''Temperature'',
                 sampleSuggestion ''B'' ''South'' ''Temperature'']"]
  by (simp add: renderGroups_def groupStep_def readKey_def pushAt_def Object_entries_def
        isArrayIndex_def isDigit_def groupBox_def suggestionRow_def sampleSuggestion_def
        Object_prototype_keys_def Let_def)

text \<open>
  Claim C8 as stated fails: with the station names \<open>B\<close> and \<open>1\<close>, in this order, the box of
  \<open>1\<close> comes first.
\<close>

theorem grouping_order_counterexample:
  "renderGroups [sampleSuggestion ''B'' ''West'' ''Noise'',
                 sampleSuggestion ''1'' ''East'' ''Noise'']
   = Inr [\<lparr> box_key = ''1'', header = ''1 - East'',
             rows = [\<lparr> row_key = 0, row_parameter = ''Noise'', row_value = Finite 99,
                       row_threshold = Finite 85, row_suggestion = ''Install noise barriers.'' \<rparr>] \<rparr>,
          \<lparr> box_key = ''B'', header = ''B - West'',
             rows = [\<lparr> row_key = 0, row_parameter = ''Noise'', row_value = Finite 99,
                       row_threshold = Finite 85, row_suggestion = ''Install noise barriers.'' \<rparr>] \<rparr>]
   \<and> firstAppearance (map stationName [sampleSuggestion ''B'' ''West'' ''Noise'',
                 sampleSuggestion ''1'' ''East'' ''Noise'']) = [''B'', ''1'']"
  by (simp add: renderGroups_def groupStep_def readKey_def pushAt_def Object_entries_def
        isArrayIndex_def isDigit_def indexValue_def groupBox_def suggestionRow_def
        sampleSuggestion_def Object_prototype_keys_def firstAppearance_def Let_def)

text \<open>A station name that every object inherits makes the grouping throw.\<close>

lemma inherited_name_throws:
  "renderGroups [sampleSuggestion ''constructor'' ''West'' ''Noise''] = Inl TypeError"
  by (simp add: renderGroups_def groupStep_def readKey_def sampleSuggestion_def
        Object_prototype_keys_def Let_def)

section \<open>Properties of the station map\<close>

lemma nth_marker:
  "i < length stations \<Longrightarrow>
     markers (Map toLocaleString stations) ! i = stationMarker toLocaleString (stations ! i)"
  by (simp add: Map_def)

lemma popup_with_reading:
  assumes "latestReading s = Some r"
  shows "concat (map shownNumbers (popupContent toLocaleString s)) =
           [temperature r, emissions r, noise r, latitude (info s), longitude (info s)]"
    and "concat (map shownTexts (popupContent toLocaleString s)) =
           [name (info s), ''Heat:'', '' '', CHR 0xB0 # ''C'', ''Emissions:'', '' '', '' ppm'',
            ''Noise:'', '' '', '' dB'', ''Latitude: '', ''Longitude: '',
            ''Last updated:'', '' '', toLocaleString (datetime r)]"
  using assms by (simp_all add: popupContent_def)

lemma popup_without_reading:
  assumes "latestReading s = None"
  shows "concat (map shownNumbers (popupContent toLocaleString s)) = []"
    and "concat (map shownTexts (popupContent toLocaleString s)) =
           [name (info s), ''No reading available'']"
  using assms by (simp_all add: popupContent_def)

text \<open>
  Claim C9. The map has one marker per station, in the order of the stations, each keyed by
  the station's identifier and placed at the station's latitude and longitude. The popup of
  a station with a reading shows the temperature, the emissions, the noise, the two
  coordinates and the formatted time of the reading; the popup of a station without a
  reading shows the name and \<open>No reading available\<close>.
\<close>

theorem map_markers:
  "length (markers (Map toLocaleString stations)) = length stations
   \<and> (\<forall>i < length stations.
         marker_key (markers (Map toLocaleString stations) ! i) = station_id (stations ! i)
         \<and> position (markers (Map toLocaleString stations) ! i) =
           (latitude (info (stations ! i)), longitude (info (stations ! i)))
         \<and> (case latestReading (stations ! i) of
               Some r \<Rightarrow>
                 concat (map shownNumbers (popup (markers (Map toLocaleString stations) ! i))) =
                   [temperature r, emissions r, noise r,
                    latitude (info (stations ! i)), longitude (info (stations ! i))]
                 \<and> concat (map shownTexts (popup (markers (Map toLocaleString stations) ! i))) =
                   [name (info (stations ! i)),
                    ''Heat:'', '' '', CHR 0xB0 # ''C'',
                    ''Emissions:'', '' '', '' ppm'',
                    ''Noise:'', '' '', '' dB'',
                    ''Latitude: '', ''Longitude: '',
                    ''Last updated:'', '' '', toLocaleString (datetime r)]
             | None \<Rightarrow>
                 concat (map shownNumbers (popup (markers (Map toLocaleString stations) ! i))) = []
                 \<and> concat (map shownTexts (popup (markers (Map toLocaleString stations) ! i))) =
                   [name (info (stations ! i)), ''No reading available'']))"
proof (intro conjI allI impI)
  show "length (markers (Map toLocaleString stations)) = length stations"
    by (simp add: Map_def)
next
  fix i assume i: "i < length stations"
  show "marker_key (markers (Map toLocaleString stations) ! i) = station_id (stations ! i)"
    by (simp add: nth_marker [OF i] stationMarker_def)
  show "position (markers (Map toLocaleString stations) ! i) =
           (latitude (info (stations ! i)), longitude (info (stations ! i)))"
    by (simp add: nth_marker [OF i] stationMarker_def)
  have p: "popup (markers (Map toLocaleString stations) ! i) =
             popupContent toLocaleString (stations ! i)"
    by (simp add: nth_marker [OF i] stationMarker_def)
  show "case latestReading (stations ! i) of
               Some r \<Rightarrow>
                 concat (map shownNumbers (popup (markers (Map toLocaleString stations) ! i))) =
                   [temperature r, emissions r, noise r,
                    latitude (info (stations ! i)), longitude (info (stations ! i))]
                 \<and> concat (map shownTexts (popup (markers (Map toLocaleString stations) ! i))) =
                   [name (info (stations ! i)),
                    ''Heat:'', '' '', CHR 0xB0 # ''C'',
                    ''Emissions:'', '' '', '' ppm'',
                    ''Noise:'', '' '', '' dB'',
                    ''Latitude: '', ''Longitude: '',
                    ''Last updated:'', '' '', toLocaleString (datetime r)]
             | None \<Rightarrow>
                 concat (map shownNumbers (popup (markers (Map toLocaleString stations) ! i))) = []
                 \<and> concat (map shownTexts (popup (markers (Map toLocaleString stations) ! i))) =
                   [name (info (stations ! i)), ''No reading available'']"
  proof (cases "latestReading (stations ! i)")
    case None
    then show ?thesis
      unfolding p by (simp only: option.case popup_without_reading [OF None] simp_thms)
  next
    case (Some r)
    then show ?thesis
      unfolding p by (simp only: option.case popup_with_reading [OF Some] simp_thms)
  qed
qed

theorem map_markers_witness:
  "map position (markers (Map (\<lambda>d. ''1/1/2025, 10:00:00 AM'') [hotStation, silentStation])) =
     [(Finite 32.7, Finite 74.9), (Finite 32.7, Finite 74.9)]
   \<and> concat (map shownNumbers (popup (markers (Map (\<lambda>d. ''1/1/2025, 10:00:00 AM'') [hotStation, silentStation]) ! 0))) =
     [Finite 41, Finite 180, Finite 90, Finite 32.7, Finite 74.9]
   \<and> concat (map shownTexts (popup (markers (Map (\<lambda>d. ''1/1/2025, 10:00:00 AM'') [hotStation, silentStation]) ! 1))) =
     [''D'', ''No reading available'']"
  using map_markers [of "\<lambda>d. ''1/1/2025, 10:00:00 AM''" "[hotStation, silentStation]"]
  by (simp add: hotStation_def silentStation_def sampleInfo_def Map_def stationMarker_def popupContent_def)

end
